theory Spec2Isabelle
  imports Complex_Main "HOL-Library.Word"
begin

unbundle bit_operations_syntax

section \<open>The simulated module of app.py\<close>

text \<open>
  Python integers are unbounded and are modelled as \<open>int\<close>; \<open>>>\<close>, \<open><<\<close>, \<open>&\<close> and
  \<open>|\<close> are \<open>drop_bit\<close>, \<open>push_bit\<close>, \<open>AND\<close> and \<open>OR\<close> on \<open>int\<close>. The elements of a
  \<open>bytes\<close> or \<open>bytearray\<close> value are \<open>8 word\<close>. Python floats are modelled as \<open>real\<close>:
  the rounding of IEEE-754 doubles is not part of the model.
\<close>

type_synonym byte = "8 word"

datatype error = IndexError | StructError | OverflowError

text \<open>The fields that \<open>InfyModuleSimulator.__init__\<close> assigns (the bus handle apart).\<close>

record simulator =
  module_id :: int
  group_id :: int
  voltage_out :: real
  current_out :: real
  set_voltage :: real
  set_current :: real
  max_current :: real
  cap_voltage_max :: real
  cap_voltage_min :: real
  cap_power_rated :: real
  is_power_on :: bool
  is_connected :: bool
  running :: bool

definition init :: "int \<Rightarrow> int \<Rightarrow> simulator" where
  "init mid gid =
     \<lparr>module_id = mid, group_id = gid,
      voltage_out = 0, current_out = 0,
      set_voltage = 500, set_current = 10,
      max_current = 25.6,
      cap_voltage_max = 750, cap_voltage_min = 100, cap_power_rated = 15000,
      is_power_on = False, is_connected = False, running = False\<rparr>"

text \<open>A \<open>can.Message\<close>, with the attributes the program reads or sets.\<close>

record message =
  arbitration_id :: int
  data :: "byte list"
  is_extended_id :: bool
  is_error_frame :: bool

subsection \<open>The calls into \<open>struct\<close> and the built-in \<open>int\<close>\<close>

text \<open>\<open>int(x)\<close> of a float truncates towards zero.\<close>

definition py_int :: "real \<Rightarrow> int" where
  "py_int x = (if 0 \<le> x then \<lfloor>x\<rfloor> else \<lceil>x\<rceil>)"

text \<open>
  \<open>struct.unpack('>I', b)[0]\<close>: the buffer must hold exactly four bytes, otherwise
  \<open>struct.error\<close> is raised; the bytes are read most significant first.
\<close>

definition unpack_I :: "byte list \<Rightarrow> error + int" where
  "unpack_I b =
     (if length b \<noteq> 4 then Inl StructError
      else Inr (foldl (\<lambda>acc x. acc * 256 + uint x) 0 b))"

text \<open>\<open>struct.pack('>I', n)\<close> and \<open>struct.pack('>H', n)\<close>: \<open>struct.error\<close> out of range.\<close>

definition pack_I :: "int \<Rightarrow> error + byte list" where
  "pack_I n =
     (if n < 0 \<or> 2 ^ 32 \<le> n then Inl StructError
      else Inr [word_of_int (drop_bit 24 n), word_of_int (drop_bit 16 n),
                word_of_int (drop_bit 8 n), word_of_int n])"

definition pack_H :: "int \<Rightarrow> error + byte list" where
  "pack_H n =
     (if n < 0 \<or> 2 ^ 16 \<le> n then Inl StructError
      else Inr [word_of_int (drop_bit 8 n), word_of_int n])"

text \<open>Packing several fields: the first field that fails raises.\<close>

fun pack_all :: "(error + byte list) list \<Rightarrow> error + byte list" where
  "pack_all [] = Inr []"
| "pack_all (Inl e # _) = Inl e"
| "pack_all (Inr b # rest) =
     (case pack_all rest of Inl e \<Rightarrow> Inl e | Inr bs \<Rightarrow> Inr (b @ bs))"

definition pack_II :: "int \<Rightarrow> int \<Rightarrow> error + byte list" where
  "pack_II a b = pack_all [pack_I a, pack_I b]"

definition pack_HHHH :: "int \<Rightarrow> int \<Rightarrow> int \<Rightarrow> int \<Rightarrow> error + byte list" where
  "pack_HHHH a b c d = pack_all [pack_H a, pack_H b, pack_H c, pack_H d]"

text \<open>
  \<open>struct.pack('>f', x)\<close> produces the IEEE-754 single-precision encoding of \<open>x\<close>, or
  raises when \<open>x\<close> is too large. The encoding is not modelled: the functions below take
  it as the parameter \<open>pack_f\<close>.
\<close>

type_synonym packf = "real \<Rightarrow> error + byte list"

subsection \<open>Identifier layout\<close>

text \<open>
  The field extraction of \<open>_process_message\<close> (app.py, lines 105 to 109):
  error code, device number, command number, destination address, source address.
\<close>

definition decodeId :: "int \<Rightarrow> int \<times> int \<times> int \<times> int \<times> int" where
  "decodeId can_id =
     (drop_bit 26 can_id AND 0x07,
      drop_bit 22 can_id AND 0x0F,
      drop_bit 16 can_id AND 0x3F,
      drop_bit 8 can_id AND 0xFF,
      can_id AND 0xFF)"

text \<open>
  Modelled from the spec: \<open>encodeId\<close> of section 4.1 is not a function of the source.
  The source builds identifiers inline (\<open>_send_response\<close>, app.py line 182, and
  \<open>send_command\<close> of the clients) with the error code 0 and the device number 0x0A
  written as constants; \<open>encodeId\<close> is that expression with the two constants as
  arguments.
\<close>

definition encodeId :: "int \<Rightarrow> int \<Rightarrow> int \<Rightarrow> int \<Rightarrow> int \<Rightarrow> int" where
  "encodeId errorCode scope command dest src =
     push_bit 26 errorCode OR push_bit 22 scope OR push_bit 16 command
       OR push_bit 8 dest OR src"

subsection \<open>Command handlers\<close>

definition handle_read_module_float :: "packf \<Rightarrow> simulator \<Rightarrow> error + byte list" where
  "handle_read_module_float pack_f s =
     (case pack_f (voltage_out s) of
        Inl e \<Rightarrow> Inl e
      | Inr v_bytes \<Rightarrow>
          (case pack_f (current_out s) of
             Inl e \<Rightarrow> Inl e
           | Inr c_bytes \<Rightarrow> Inr (v_bytes @ c_bytes)))"

definition handle_read_status :: "simulator \<Rightarrow> byte list" where
  "handle_read_status s = [0x00, 0x00, 0x00, 0x00, 25, 0x00, 0x00, 0x00]"

text \<open>
  \<open>data[0]\<close> raises \<open>IndexError\<close> on an empty payload, before any field is assigned:
  the device state is then the one the handler was called with.
\<close>

definition handle_power_control :: "simulator \<Rightarrow> byte list \<Rightarrow> error + simulator" where
  "handle_power_control s dat =
     (case dat of
        [] \<Rightarrow> Inl IndexError
      | b # _ \<Rightarrow>
          if b = 0x00
          then Inr (s\<lparr>is_power_on := True,
                      voltage_out := set_voltage s,
                      current_out := set_current s / 2\<rparr>)
          else Inr (s\<lparr>is_power_on := False, voltage_out := 0, current_out := 0\<rparr>))"

definition handle_read_power_state :: "simulator \<Rightarrow> byte list" where
  "handle_read_power_state s =
     [if is_power_on s then 0x00 else 0x01, 0, 0, 0, 0, 0, 0, 0]"

text \<open>
  Both \<open>struct.unpack\<close> calls come before the first assignment, so an exception leaves
  the device state as it was. \<open>data[0:4]\<close> and \<open>data[4:8]\<close> are slices: they never
  raise, they are shorter than four bytes when the payload is.
\<close>

definition handle_set_output :: "simulator \<Rightarrow> byte list \<Rightarrow> error + simulator" where
  "handle_set_output s dat =
     (case unpack_I (take 4 dat) of
        Inl e \<Rightarrow> Inl e
      | Inr v_val \<Rightarrow>
          (case unpack_I (take 4 (drop 4 dat)) of
             Inl e \<Rightarrow> Inl e
           | Inr c_val \<Rightarrow>
               (let s1 = s\<lparr>set_voltage := real_of_int v_val / 1000,
                            set_current := real_of_int c_val / 1000\<rparr>
                in Inr (if is_power_on s1
                        then s1\<lparr>voltage_out := set_voltage s1\<rparr>
                        else s1))))"

definition handle_read_output_setting :: "simulator \<Rightarrow> error + byte list" where
  "handle_read_output_setting s =
     (let v_int = py_int (set_voltage s * 1000);
          c_int = py_int (set_current s * 1000)
      in pack_II v_int c_int)"

definition handle_read_system_float :: "packf \<Rightarrow> simulator \<Rightarrow> error + byte list" where
  "handle_read_system_float pack_f s = handle_read_module_float pack_f s"

definition handle_read_system_fixed :: "simulator \<Rightarrow> error + byte list" where
  "handle_read_system_fixed s =
     (let v_int = max 0 (py_int (voltage_out s * 1000));
          c_int = max 0 (py_int (current_out s * 1000))
      in pack_II v_int c_int)"

definition handle_read_module_fixed :: "simulator \<Rightarrow> error + byte list" where
  "handle_read_module_fixed s = handle_read_system_fixed s"

definition handle_read_module_info :: "simulator \<Rightarrow> error + byte list" where
  "handle_read_module_info s =
     (let vmax = py_int (cap_voltage_max s * 10);
          vmin = py_int (cap_voltage_min s * 10);
          imax = py_int (max_current s * 10);
          prate = py_int (cap_power_rated s / 10)
      in pack_HHHH vmax vmin imax prate)"

definition handle_read_module_external :: "simulator \<Rightarrow> error + byte list" where
  "handle_read_module_external s =
     (let ext_v = max 0 (py_int (voltage_out s * 10));
          allow_i = (if is_power_on s then py_int (max_current s * 10) else 0)
      in pack_HHHH ext_v allow_i 0 0)"

definition handle_set_output_fixed :: "simulator \<Rightarrow> byte list \<Rightarrow> error + simulator" where
  "handle_set_output_fixed s dat = handle_set_output s dat"

subsection \<open>Command router\<close>

text \<open>
  \<open>_send_response\<close>: the frame handed to \<open>bus.send\<close>. The transport itself is outside
  the model.
\<close>

definition send_response :: "simulator \<Rightarrow> int \<Rightarrow> byte list \<Rightarrow> int \<Rightarrow> message" where
  "send_response s cmd dat target_addr =
     (let resp_id = push_bit 26 0x00 OR push_bit 22 0x0A OR push_bit 16 cmd
                      OR push_bit 8 target_addr OR module_id s
      in \<lparr>arbitration_id = resp_id, data = dat,
          is_extended_id = True, is_error_frame = False\<rparr>)"

text \<open>
  \<open>_route_command\<close> returns the device state after the call together with either the
  exception that escaped or the frame that was sent, if one was. The handlers mutate
  the object in place, so what they assigned before an exception stays assigned.
  A reply is sent when \<open>reply_data\<close> is truthy: neither \<open>None\<close> nor empty.
\<close>

definition route_command ::
  "packf \<Rightarrow> simulator \<Rightarrow> int \<Rightarrow> byte list \<Rightarrow> int \<Rightarrow> int \<Rightarrow> int
     \<Rightarrow> simulator \<times> (error + message option)" where
  "route_command pack_f s cmd dat remote_src device_mode dest_addr =
     (let (s', r) =
        (if cmd = 0x01 then (s, map_sum id Some (handle_read_system_float pack_f s))
         else if cmd = 0x03 then (s, map_sum id Some (handle_read_module_float pack_f s))
         else if cmd = 0x04 then (s, Inr (Some (handle_read_status s)))
         else if cmd = 0x08 then (s, map_sum id Some (handle_read_system_fixed s))
         else if cmd = 0x09 then (s, map_sum id Some (handle_read_module_fixed s))
         else if cmd = 0x0A then (s, map_sum id Some (handle_read_module_info s))
         else if cmd = 0x0C then (s, map_sum id Some (handle_read_module_external s))
         else if cmd = 0x1A then
           (case handle_power_control s dat of
              Inl e \<Rightarrow> (s, Inl e)
            | Inr s1 \<Rightarrow>
                if device_mode = 0x0A \<and> dest_addr \<noteq> 0x3F
                then (s1, Inr (Some (handle_read_power_state s1)))
                else (s1, Inr None))
         else if cmd = 0x1B then
           (case handle_set_output s dat of
              Inl e \<Rightarrow> (s, Inl e)
            | Inr s1 \<Rightarrow> (s1, map_sum id Some (handle_read_output_setting s1)))
         else if cmd = 0x1C then
           (case handle_set_output_fixed s dat of
              Inl e \<Rightarrow> (s, Inl e)
            | Inr s1 \<Rightarrow>
                if dest_addr \<noteq> 0x3F
                then (s1, map_sum id Some (handle_read_output_setting s1))
                else (s1, Inr None))
         else (s, Inr None))
      in case r of
           Inl e \<Rightarrow> (s', Inl e)
         | Inr None \<Rightarrow> (s', Inr None)
         | Inr (Some reply_data) \<Rightarrow>
             if reply_data \<noteq> []
             then (s', Inr (Some (send_response s' cmd reply_data remote_src)))
             else (s', Inr None))"

subsection \<open>Protocol parser and receive loop\<close>

text \<open>
  What one pass of the receive loop does with a frame: the loop stops, the frame is
  skipped by the loop, the parser finds it is not for this module, or the router is
  called (with the state and result it returns).
\<close>

datatype outcome =
    Stopped
  | Ignored
  | NotForMe
  | Routed "simulator \<times> (error + message option)"

definition process_message :: "packf \<Rightarrow> simulator \<Rightarrow> message \<Rightarrow> outcome" where
  "process_message pack_f s msg =
     (let can_id = arbitration_id msg;
          (err_code, device_no, cmd_no, dest_addr, src_addr) = decodeId can_id;
          is_for_me =
            (if dest_addr = 0x3F then True
             else if device_no = 0x0A \<and> dest_addr = module_id s then True
             else if device_no = 0x0B \<and> dest_addr = group_id s then True
             else False)
      in if is_for_me
         then Routed (route_command pack_f s cmd_no (data msg) src_addr device_no dest_addr)
         else NotForMe)"

definition receive_step :: "packf \<Rightarrow> simulator \<Rightarrow> message \<Rightarrow> outcome" where
  "receive_step pack_f s msg =
     (if \<not> running s then Stopped
      else if is_error_frame msg then Ignored
      else if arbitration_id msg AND 0xFF = module_id s then Ignored
      else process_message pack_f s msg)"

text \<open>
  \<open>_receive_loop\<close> over the frames the bus delivers: the final device state, the frames
  sent in reply, and the exception that ended the loop, if one did. Nothing in the
  loop catches an exception of the router, so it ends the loop.
\<close>

fun receive_loop ::
  "packf \<Rightarrow> simulator \<Rightarrow> message list \<Rightarrow> simulator \<times> message list \<times> error option" where
  "receive_loop pack_f s [] = (s, [], None)"
| "receive_loop pack_f s (msg # rest) =
     (case receive_step pack_f s msg of
        Stopped \<Rightarrow> (s, [], None)
      | Ignored \<Rightarrow> receive_loop pack_f s rest
      | NotForMe \<Rightarrow> receive_loop pack_f s rest
      | Routed (s', Inl e) \<Rightarrow> (s', [], Some e)
      | Routed (s', Inr reply) \<Rightarrow>
          (case receive_loop pack_f s' rest of
             (s'', sent, err) \<Rightarrow>
               (s'', (case reply of None \<Rightarrow> [] | Some m \<Rightarrow> [m]) @ sent, err)))"

subsection \<open>Heartbeat\<close>

text \<open>
  \<open>random.uniform(a, b)\<close> is \<open>a + (b - a) * random()\<close>, where \<open>random()\<close> draws from
  \<open>[0, 1)\<close>. The draw is the argument \<open>r\<close>.
\<close>

definition uniform :: "real \<Rightarrow> real \<Rightarrow> real \<Rightarrow> real" where
  "uniform a b r = a + (b - a) * r"

text \<open>One cycle of \<open>_broadcast_heartbeat_loop\<close>: the frame sent and the time slept.\<close>

definition heartbeat_cycle :: "simulator \<Rightarrow> real \<Rightarrow> message \<times> real" where
  "heartbeat_cycle s r =
     (let arb_id = 0x0757F800 OR module_id s;
          msg = \<lparr>arbitration_id = arb_id, data = replicate 8 0x00,
                 is_extended_id = True, is_error_frame = False\<rparr>;
          sleep_time = uniform 0.390 0.410 r
      in (msg, sleep_time))"

text \<open>The loop, one cycle for each draw of the random source, while \<open>running\<close> holds.\<close>

fun broadcast_heartbeat_loop :: "simulator \<Rightarrow> real list \<Rightarrow> (message \<times> real) list" where
  "broadcast_heartbeat_loop s [] = []"
| "broadcast_heartbeat_loop s (r # rs) =
     (if running s then heartbeat_cycle s r # broadcast_heartbeat_loop s rs else [])"

text \<open>
  A \<open>pack_f\<close> that always raises, for runs in which no float is packed.
\<close>

definition pack_f_raises :: packf where
  "pack_f_raises x = Inl OverflowError"

section \<open>Properties\<close>

subsection \<open>Masks and shifts as arithmetic\<close>

lemma and_mask_mod:
  "(x::int) AND 0xFF = x mod 256" "(x::int) AND 0x3F = x mod 64"
  "(x::int) AND 0x0F = x mod 16" "(x::int) AND 0x07 = x mod 8"
  using take_bit_eq_mask[of 8 x] take_bit_eq_mask[of 6 x]
        take_bit_eq_mask[of 4 x] take_bit_eq_mask[of 3 x]
  by (simp_all add: take_bit_eq_mod mask_eq_exp_minus_1)

lemma decodeId_arith:
  "decodeId x =
     (x div 2 ^ 26 mod 8, x div 2 ^ 22 mod 16, x div 2 ^ 16 mod 64,
      x div 2 ^ 8 mod 256, x mod 256)"
  by (simp add: decodeId_def and_mask_mod drop_bit_eq_div)

lemma send_response_encodeId:
  "arbitration_id (send_response s cmd dat target_addr)
     = encodeId 0x00 0x0A cmd target_addr (module_id s)"
  by (simp add: send_response_def encodeId_def)

subsection \<open>Frame filtering\<close>

text \<open>
  Claim C1. While the module runs, a received frame that is not an error frame reaches
  the router if and only if its source field (the identifier modulo 256) differs from
  the module id and the frame is for this module: its destination field is 0x3F, or
  the scope is 0x0A and the destination is the module id, or the scope is 0x0B and the
  destination is the group id. The router is then called with the decoded fields.
  This holds for every integer identifier, the 29-bit ones among them.
\<close>

theorem receive_step_routed_iff:
  assumes "running s" and "\<not> is_error_frame msg"
  shows "((\<exists>res. receive_step pack_f s msg = Routed res) \<longleftrightarrow>
            arbitration_id msg mod 256 \<noteq> module_id s \<and>
            (arbitration_id msg div 2 ^ 8 mod 256 = 0x3F
             \<or> arbitration_id msg div 2 ^ 22 mod 16 = 0x0A
                 \<and> arbitration_id msg div 2 ^ 8 mod 256 = module_id s
             \<or> arbitration_id msg div 2 ^ 22 mod 16 = 0x0B
                 \<and> arbitration_id msg div 2 ^ 8 mod 256 = group_id s))
         \<and> (\<forall>res. receive_step pack_f s msg = Routed res \<longrightarrow>
               res = route_command pack_f s (arbitration_id msg div 2 ^ 16 mod 64) (data msg)
                       (arbitration_id msg mod 256) (arbitration_id msg div 2 ^ 22 mod 16)
                       (arbitration_id msg div 2 ^ 8 mod 256))"
  using assms
  by (auto simp add: receive_step_def process_message_def decodeId_arith and_mask_mod Let_def)

theorem receive_step_routed_iff_witness:
  "running ((init 0 0)\<lparr>running := True\<rparr>) \<and>
   \<not> is_error_frame \<lparr>arbitration_id = 0x029A3FF0, data = [0x01],
                      is_extended_id = True, is_error_frame = False\<rparr> \<and>
   receive_step pack_f_raises ((init 0 0)\<lparr>running := True\<rparr>)
      \<lparr>arbitration_id = 0x029A3FF0, data = [0x01],
       is_extended_id = True, is_error_frame = False\<rparr>
    = Routed (route_command pack_f_raises ((init 0 0)\<lparr>running := True\<rparr>)
                0x1A [0x01] 0xF0 0x0A 0x3F)"
  using receive_step_routed_iff [of "(init 0 0)\<lparr>running := True\<rparr>"
     "\<lparr>arbitration_id = 0x029A3FF0, data = [0x01],
       is_extended_id = True, is_error_frame = False\<rparr>" pack_f_raises]
  by (auto simp add: init_def)

subsection \<open>Identifier round trip\<close>

lemma decode_encode:
  assumes "0 \<le> e" "e \<le> 7" "0 \<le> sc" "sc \<le> 15" "0 \<le> c" "c \<le> 0x3F"
    and "0 \<le> d" "d \<le> 0xFF" "0 \<le> sr" "sr \<le> 0xFF"
  shows "decodeId (encodeId e sc c d sr) = (e, sc, c, d, sr)"
proof -
  have e: "take_bit 3 e = e" using assms by (simp add: take_bit_int_eq_self)
  have sc: "take_bit 4 sc = sc" using assms by (simp add: take_bit_int_eq_self)
  have c: "take_bit 6 c = c" using assms by (simp add: take_bit_int_eq_self)
  have d: "take_bit 8 d = d" using assms by (simp add: take_bit_int_eq_self)
  have sr: "take_bit 8 sr = sr" using assms by (simp add: take_bit_int_eq_self)
  have m: "(0x07::int) = mask 3" "(0x0F::int) = mask 4"
          "(0x3F::int) = mask 6" "(0xFF::int) = mask 8"
    by (simp_all add: mask_eq_exp_minus_1)
  have "decodeId (encodeId (take_bit 3 e) (take_bit 4 sc) (take_bit 6 c)
                    (take_bit 8 d) (take_bit 8 sr))
          = (take_bit 3 e, take_bit 4 sc, take_bit 6 c, take_bit 8 d, take_bit 8 sr)"
    unfolding decodeId_def encodeId_def m
    by (auto simp add: bit_eq_iff bit_simps simp flip: take_bit_eq_mask)
  then show ?thesis by (simp only: e sc c d sr)
qed

text \<open>
  Claim C2. For every error code in [0,7], scope in [0,15], command in [0,0x3F],
  destination in [0,0xFF] and source in [0,0xFF], decoding the packed identifier
  gives back the five fields.
\<close>

theorem decodeId_encodeId:
  assumes "0 \<le> e" "e \<le> 7" "0 \<le> sc" "sc \<le> 15" "0 \<le> c" "c \<le> 0x3F"
    and "0 \<le> d" "d \<le> 0xFF" "0 \<le> sr" "sr \<le> 0xFF"
  shows "decodeId (encodeId e sc c d sr) = (e, sc, c, d, sr)"
  using assms by (rule decode_encode)

theorem decodeId_encodeId_witness:
  "decodeId (encodeId 0 0x0A 0x1B 0x3F 0xF0) = (0, 0x0A, 0x1B, 0x3F, 0xF0)"
  using decodeId_encodeId [of 0 "0x0A" "0x1B" "0x3F" "0xF0"] by simp

subsection \<open>Power control\<close>

text \<open>
  Claim C5. For every device state and every power-control payload with a first byte:
  if that byte is 0x00 the power flag becomes true, the measured voltage becomes the
  setpoint voltage and the measured current half the setpoint current; otherwise the
  power flag becomes false and both measured values become 0. The bytes after the
  first do not occur in the result, and no other field, the setpoints among them,
  changes.
\<close>

theorem handle_power_control_effect:
  "handle_power_control s (b # rest) =
     Inr (if b = 0x00
          then s\<lparr>is_power_on := True, voltage_out := set_voltage s,
                 current_out := set_current s / 2\<rparr>
          else s\<lparr>is_power_on := False, voltage_out := 0, current_out := 0\<rparr>)"
  by (simp add: handle_power_control_def)

text \<open>
  Claim C10. The power-control handler is idempotent: when a payload has brought the
  device to a state, a second payload whose first byte selects the same action (both
  0x00, or both nonzero) leaves that state as it is.
\<close>

theorem handle_power_control_idempotent:
  assumes "(b = 0x00) = (b' = 0x00)"
    and "handle_power_control s (b # rest) = Inr s1"
  shows "handle_power_control s1 (b' # rest') = Inr s1"
  using assms by (auto simp add: handle_power_control_def split: if_splits)

theorem handle_power_control_idempotent_witness:
  "handle_power_control (init 0 0) [0x02]
     = Inr ((init 0 0)\<lparr>is_power_on := False, voltage_out := 0, current_out := 0\<rparr>)
   \<and> handle_power_control
         ((init 0 0)\<lparr>is_power_on := False, voltage_out := 0, current_out := 0\<rparr>) [0x01, 0xFF]
     = Inr ((init 0 0)\<lparr>is_power_on := False, voltage_out := 0, current_out := 0\<rparr>)"
proof -
  have e: "((0x02::byte) = 0x00) = ((0x01::byte) = 0x00)" by simp
  have h: "handle_power_control (init 0 0) [0x02]
     = Inr ((init 0 0)\<lparr>is_power_on := False, voltage_out := 0, current_out := 0\<rparr>)"
    by (simp add: handle_power_control_def)
  from handle_power_control_idempotent [OF e h, of "[0xFF]"] h show ?thesis by simp
qed

subsection \<open>Set output\<close>

lemma unpack_I_four:
  "unpack_I [b0, b1, b2, b3] =
     Inr (uint b0 * 2 ^ 24 + uint b1 * 2 ^ 16 + uint b2 * 2 ^ 8 + uint b3)"
  by (simp add: unpack_I_def)

text \<open>
  Claim C6. For every device state and every 8-byte set-output payload, the handler of
  0x1B, and that of 0x1C, which calls it, stores the voltage setpoint (the first four
  bytes as a big-endian number of millivolts, divided by 1000) and the current setpoint
  (the last four bytes, milliamperes divided by 1000). The measured voltage becomes the
  new voltage setpoint when the device is powered on and is unchanged when it is off.
  The measured current, the power flag, the capability constants and the module and
  group id are unchanged.
\<close>

theorem handle_set_output_effect:
  "handle_set_output s [b0, b1, b2, b3, b4, b5, b6, b7] =
     Inr (s\<lparr>set_voltage :=
               real_of_int (uint b0 * 2 ^ 24 + uint b1 * 2 ^ 16 + uint b2 * 2 ^ 8 + uint b3) / 1000,
             set_current :=
               real_of_int (uint b4 * 2 ^ 24 + uint b5 * 2 ^ 16 + uint b6 * 2 ^ 8 + uint b7) / 1000,
             voltage_out :=
               (if is_power_on s
                then real_of_int (uint b0 * 2 ^ 24 + uint b1 * 2 ^ 16 + uint b2 * 2 ^ 8 + uint b3) / 1000
                else voltage_out s)\<rparr>)
   \<and> handle_set_output_fixed s [b0, b1, b2, b3, b4, b5, b6, b7]
       = handle_set_output s [b0, b1, b2, b3, b4, b5, b6, b7]"
  by (simp add: handle_set_output_def handle_set_output_fixed_def unpack_I_four Let_def)

lemma unpack_I_500000: "unpack_I [0x00, 0x07, 0xA1, 0x20] = Inr 500000"
  by (simp add: unpack_I_four)

lemma unpack_I_10000: "unpack_I [0x00, 0x00, 0x27, 0x10] = Inr 10000"
  by (simp add: unpack_I_four)

lemma pack_I_500000: "pack_I 500000 = Inr [0x00, 0x07, 0xA1, 0x20]"
  by (simp add: pack_I_def drop_bit_eq_div)

lemma pack_I_10000: "pack_I 10000 = Inr [0x00, 0x00, 0x27, 0x10]"
  by (simp add: pack_I_def drop_bit_eq_div)

lemma pack_II_500000_10000:
  "pack_II 500000 10000 = Inr [0x00, 0x07, 0xA1, 0x20, 0x00, 0x00, 0x27, 0x10]"
  by (simp add: pack_II_def pack_I_500000 pack_I_10000)

lemma handle_set_output_500V_10A:
  "handle_set_output s [0x00, 0x07, 0xA1, 0x20, 0x00, 0x00, 0x27, 0x10] =
     Inr (s\<lparr>set_voltage := 500, set_current := 10,
            voltage_out := (if is_power_on s then 500 else voltage_out s)\<rparr>)"
  by (simp add: handle_set_output_def unpack_I_500000 unpack_I_10000 Let_def)

lemma handle_read_output_setting_500V_10A:
  "set_voltage s = 500 \<Longrightarrow> set_current s = 10 \<Longrightarrow>
   handle_read_output_setting s = Inr [0x00, 0x07, 0xA1, 0x20, 0x00, 0x00, 0x27, 0x10]"
  by (simp add: handle_read_output_setting_def py_int_def pack_II_500000_10000)

text \<open>
  Claim C7. The payload uint32BE(500000) ++ uint32BE(10000) is the eight bytes
  00 07 A1 20 00 00 27 10. For any device state, routing a command-0x1B frame with
  that payload makes the setpoint 500 V and 10 A (the measured voltage follows when
  the device is on), and the reply frame sent carries a payload whose two big-endian
  32-bit halves decode to 500000 and 10000.
\<close>

theorem route_command_set_output_500V_10A:
  "pack_II 500000 10000 = Inr [0x00, 0x07, 0xA1, 0x20, 0x00, 0x00, 0x27, 0x10]
   \<and> route_command pack_f s 0x1B [0x00, 0x07, 0xA1, 0x20, 0x00, 0x00, 0x27, 0x10]
       remote_src device_mode dest_addr =
     (s\<lparr>set_voltage := 500, set_current := 10,
        voltage_out := (if is_power_on s then 500 else voltage_out s)\<rparr>,
      Inr (Some \<lparr>arbitration_id =
                    push_bit 26 0x00 OR push_bit 22 0x0A OR push_bit 16 0x1B
                      OR push_bit 8 remote_src OR module_id s,
                  data = [0x00, 0x07, 0xA1, 0x20, 0x00, 0x00, 0x27, 0x10],
                  is_extended_id = True, is_error_frame = False\<rparr>))
   \<and> unpack_I (take 4 [0x00, 0x07, 0xA1, 0x20, 0x00, 0x00, 0x27, 0x10]) = Inr 500000
   \<and> unpack_I (take 4 (drop 4 [0x00, 0x07, 0xA1, 0x20, 0x00, 0x00, 0x27, 0x10])) = Inr 10000"
proof -
  let ?s1 = "s\<lparr>set_voltage := 500, set_current := 10,
        voltage_out := (if is_power_on s then 500 else voltage_out s)\<rparr>"
  have r: "handle_read_output_setting ?s1 = Inr [0x00, 0x07, 0xA1, 0x20, 0x00, 0x00, 0x27, 0x10]"
    by (rule handle_read_output_setting_500V_10A) simp_all
  have "route_command pack_f s 0x1B [0x00, 0x07, 0xA1, 0x20, 0x00, 0x00, 0x27, 0x10]
       remote_src device_mode dest_addr =
     (?s1, Inr (Some (send_response ?s1 0x1B
                        [0x00, 0x07, 0xA1, 0x20, 0x00, 0x00, 0x27, 0x10] remote_src)))"
    unfolding route_command_def by (simp add: handle_set_output_500V_10A r)
  then show ?thesis
    by (simp add: send_response_def unpack_I_500000 unpack_I_10000 pack_II_500000_10000)
qed

subsection \<open>Commands that only read\<close>

lemma route_finish_fst:
  "fst (case r of
          Inl e \<Rightarrow> (s', Inl e)
        | Inr None \<Rightarrow> (s', Inr None)
        | Inr (Some reply_data) \<Rightarrow>
            if reply_data \<noteq> []
            then (s', Inr (Some (send_response s' cmd reply_data remote_src)))
            else (s', Inr None)) = s'"
  by (simp split: sum.split option.split)

text \<open>
  Claim C8. Routing a command other than 0x1A, 0x1B and 0x1C, that is, one of the read
  commands 0x01, 0x03, 0x04, 0x08, 0x09, 0x0A, 0x0C or a command outside the dispatch
  table, leaves every field of the device state unchanged, whether the call returns or
  raises.
\<close>

theorem route_command_reads_keep_state:
  assumes "cmd \<noteq> 0x1A" "cmd \<noteq> 0x1B" "cmd \<noteq> 0x1C"
  shows "fst (route_command pack_f s cmd dat remote_src device_mode dest_addr) = s"
proof -
  consider "cmd = 0x01" | "cmd = 0x03" | "cmd = 0x04" | "cmd = 0x08" | "cmd = 0x09"
    | "cmd = 0x0A" | "cmd = 0x0C"
    | "cmd \<noteq> 0x01" "cmd \<noteq> 0x03" "cmd \<noteq> 0x04" "cmd \<noteq> 0x08" "cmd \<noteq> 0x09"
      "cmd \<noteq> 0x0A" "cmd \<noteq> 0x0C"
    by blast
  then show ?thesis
  proof cases
    case 1 then show ?thesis by (simp add: route_command_def route_finish_fst)
  next
    case 2 then show ?thesis by (simp add: route_command_def route_finish_fst)
  next
    case 3 then show ?thesis by (simp add: route_command_def route_finish_fst)
  next
    case 4 then show ?thesis by (simp add: route_command_def route_finish_fst)
  next
    case 5 then show ?thesis by (simp add: route_command_def route_finish_fst)
  next
    case 6 then show ?thesis by (simp add: route_command_def route_finish_fst)
  next
    case 7 then show ?thesis by (simp add: route_command_def route_finish_fst)
  next
    case 8 with assms show ?thesis by (simp add: route_command_def)
  qed
qed

theorem route_command_reads_keep_state_witness:
  "fst (route_command pack_f_raises (init 0 0) 0x0C [] 0xF0 0x0A 0x00) = init 0 0"
  using route_command_reads_keep_state [of "0x0C" pack_f_raises "init 0 0" "[]" "0xF0" "0x0A" "0x00"]
  by simp

subsection \<open>Undersized payloads\<close>

lemma route_power_control_empty:
  "route_command pack_f s 0x1A [] remote_src device_mode dest_addr = (s, Inl IndexError)"
  by (simp add: route_command_def handle_power_control_def)

lemma unpack_I_short: "length b \<noteq> 4 \<Longrightarrow> unpack_I b = Inl StructError"
  by (simp add: unpack_I_def)

lemma unpack_I_error: "unpack_I b = Inl e \<Longrightarrow> e = StructError"
  by (simp add: unpack_I_def split: if_splits)

lemma handle_set_output_short:
  assumes "length dat < 8"
  shows "handle_set_output s dat = Inl StructError"
proof (cases "length dat < 4")
  case True
  then show ?thesis by (simp add: handle_set_output_def unpack_I_def)
next
  case False
  with assms have "length (take 4 (drop 4 dat)) \<noteq> 4" by simp
  then have "unpack_I (take 4 (drop 4 dat)) = Inl StructError"
    by (rule unpack_I_short)
  then show ?thesis
    by (auto simp add: handle_set_output_def split: sum.split dest: unpack_I_error)
qed

lemma route_set_output_short:
  assumes "length dat < 8"
  shows "route_command pack_f s 0x1B dat remote_src device_mode dest_addr = (s, Inl StructError)"
    and "route_command pack_f s 0x1C dat remote_src device_mode dest_addr = (s, Inl StructError)"
  using handle_set_output_short [OF assms, of s]
  by (simp_all add: route_command_def handle_set_output_fixed_def)

text \<open>
  Claim C3, evaluated at frames with an undersized payload. A power-control frame
  (scope 0x0A, command 0x1A, destination 0, source 0xF0) with an empty payload makes
  \<open>data[0]\<close> raise \<open>IndexError\<close>; a set-output frame (command 0x1B) with four bytes
  makes the second \<open>struct.unpack\<close> raise \<open>struct.error\<close>. Neither the router, the
  parser nor the receive loop catches the exception: the loop ends, and the
  well-formed power-on frame that follows is never handled. The device state is
  unchanged and nothing is sent. The same well-formed frame alone is handled and
  answered.
\<close>

theorem undersized_payload_ends_receive_loop:
  "receive_loop pack_f ((init 0 0)\<lparr>running := True\<rparr>)
     [\<lparr>arbitration_id = 0x029A00F0, data = [],
       is_extended_id = True, is_error_frame = False\<rparr>,
      \<lparr>arbitration_id = 0x029A00F0, data = [0x00],
       is_extended_id = True, is_error_frame = False\<rparr>]
     = ((init 0 0)\<lparr>running := True\<rparr>, [], Some IndexError)
   \<and> receive_loop pack_f ((init 0 0)\<lparr>running := True\<rparr>)
     [\<lparr>arbitration_id = 0x029B00F0, data = [0x00, 0x07, 0xA1, 0x20],
       is_extended_id = True, is_error_frame = False\<rparr>,
      \<lparr>arbitration_id = 0x029A00F0, data = [0x00],
       is_extended_id = True, is_error_frame = False\<rparr>]
     = ((init 0 0)\<lparr>running := True\<rparr>, [], Some StructError)
   \<and> receive_loop pack_f ((init 0 0)\<lparr>running := True\<rparr>)
     [\<lparr>arbitration_id = 0x029A00F0, data = [0x00],
       is_extended_id = True, is_error_frame = False\<rparr>]
     = ((init 0 0)\<lparr>running := True, is_power_on := True, voltage_out := 500, current_out := 5\<rparr>,
        [\<lparr>arbitration_id = 0x029AF000, data = [0, 0, 0, 0, 0, 0, 0, 0],
          is_extended_id = True, is_error_frame = False\<rparr>], None)"
proof -
  let ?s = "(init 0 0)\<lparr>running := True\<rparr>"
  have d: "decodeId 0x029A00F0 = (0, 0x0A, 0x1A, 0x00, 0xF0)"
    by (simp add: decodeId_arith)
  have d': "decodeId 0x029B00F0 = (0, 0x0A, 0x1B, 0x00, 0xF0)"
    by (simp add: decodeId_arith)
  have a: "(0x029A00F0::int) AND 0xFF = 0xF0" "(0x029B00F0::int) AND 0xFF = 0xF0"
    by (simp_all add: and_mask_mod)
  have 1: "receive_step pack_f ?s \<lparr>arbitration_id = 0x029A00F0, data = [],
       is_extended_id = True, is_error_frame = False\<rparr> = Routed (?s, Inl IndexError)"
    by (simp add: receive_step_def process_message_def d a route_power_control_empty init_def)
  have "length [0x00, 0x07, 0xA1, (0x20::byte)] < 8" by simp
  then have "route_command pack_f ?s 0x1B [0x00, 0x07, 0xA1, 0x20] 0xF0 0x0A 0x00
      = (?s, Inl StructError)"
    by (rule route_set_output_short(1))
  then have 3: "receive_step pack_f ?s \<lparr>arbitration_id = 0x029B00F0,
       data = [0x00, 0x07, 0xA1, 0x20],
       is_extended_id = True, is_error_frame = False\<rparr> = Routed (?s, Inl StructError)"
    by (simp add: receive_step_def process_message_def d' a init_def)
  have r: "route_command pack_f ?s 0x1A [0x00] 0xF0 0x0A 0x00 =
     (?s\<lparr>is_power_on := True, voltage_out := 500, current_out := 5\<rparr>,
      Inr (Some \<lparr>arbitration_id = 0x029AF000, data = [0, 0, 0, 0, 0, 0, 0, 0],
          is_extended_id = True, is_error_frame = False\<rparr>))"
    by (simp add: route_command_def handle_power_control_def handle_read_power_state_def
          send_response_def init_def push_bit_eq_mult)
  have 2: "receive_step pack_f ?s \<lparr>arbitration_id = 0x029A00F0, data = [0x00],
       is_extended_id = True, is_error_frame = False\<rparr> =
     Routed (?s\<lparr>is_power_on := True, voltage_out := 500, current_out := 5\<rparr>,
      Inr (Some \<lparr>arbitration_id = 0x029AF000, data = [0, 0, 0, 0, 0, 0, 0, 0],
          is_extended_id = True, is_error_frame = False\<rparr>))"
    using r by (simp add: receive_step_def process_message_def d a init_def)
  show ?thesis by (simp add: 1 2 3)
qed

subsection \<open>Replies of the router\<close>

lemma uint_byte_bounds: "0 \<le> uint (b::byte)" "uint (b::byte) \<le> 255"
  using uint_lt2p [of b] by simp_all

lemma u32_bounds:
  "0 \<le> uint (b0::byte) * 2 ^ 24 + uint (b1::byte) * 2 ^ 16 + uint (b2::byte) * 2 ^ 8 + uint (b3::byte)"
  "uint (b0::byte) * 2 ^ 24 + uint (b1::byte) * 2 ^ 16 + uint (b2::byte) * 2 ^ 8 + uint (b3::byte) < 2 ^ 32"
  using uint_byte_bounds [of b0] uint_byte_bounds [of b1] uint_byte_bounds [of b2]
    uint_byte_bounds [of b3]
  by simp_all

lemma unpack_I_ok:
  assumes "length b = 4"
  shows "\<exists>v. unpack_I b = Inr v \<and> 0 \<le> v \<and> v < 2 ^ 32"
proof -
  from assms obtain b0 b1 b2 b3 where b: "b = [b0, b1, b2, b3]"
    by (auto simp add: length_Suc_conv numeral_eq_Suc)
  show ?thesis
    unfolding b using u32_bounds [of b0 b1 b2 b3] by (simp add: unpack_I_four)
qed

lemma py_int_of_int: "py_int (real_of_int n) = n"
  by (simp add: py_int_def)

lemma py_int_milli: "py_int (real_of_int n / 1000 * 1000) = n"
  by (simp add: py_int_def)

lemma pack_I_ok:
  "0 \<le> n \<Longrightarrow> n < 2 ^ 32 \<Longrightarrow> \<exists>b. pack_I n = Inr b \<and> length b = 4"
  by (simp add: pack_I_def)

lemma pack_II_ok:
  assumes "0 \<le> a" "a < 2 ^ 32" "0 \<le> b" "b < 2 ^ 32"
  shows "\<exists>bs. pack_II a b = Inr bs \<and> length bs = 8"
proof -
  from pack_I_ok [OF assms(1,2)] obtain x where x: "pack_I a = Inr x" "length x = 4" by blast
  from pack_I_ok [OF assms(3,4)] obtain y where y: "pack_I b = Inr y" "length y = 4" by blast
  show ?thesis by (simp add: pack_II_def x y)
qed

lemma handle_set_output_ok:
  assumes "8 \<le> length dat"
  shows "\<exists>v c. 0 \<le> v \<and> v < 2 ^ 32 \<and> 0 \<le> c \<and> c < 2 ^ 32 \<and>
           handle_set_output s dat =
             Inr (s\<lparr>set_voltage := real_of_int v / 1000, set_current := real_of_int c / 1000,
                    voltage_out := (if is_power_on s then real_of_int v / 1000 else voltage_out s)\<rparr>)"
proof -
  from assms have "length (take 4 dat) = 4" by simp
  from unpack_I_ok [OF this] obtain v
    where v: "unpack_I (take 4 dat) = Inr v" "0 \<le> v" "v < 2 ^ 32" by blast
  from assms have "length (take 4 (drop 4 dat)) = 4" by simp
  from unpack_I_ok [OF this] obtain c
    where c: "unpack_I (take 4 (drop 4 dat)) = Inr c" "0 \<le> c" "c < 2 ^ 32" by blast
  have "handle_set_output s dat =
             Inr (s\<lparr>set_voltage := real_of_int v / 1000, set_current := real_of_int c / 1000,
                    voltage_out := (if is_power_on s then real_of_int v / 1000 else voltage_out s)\<rparr>)"
    by (simp add: handle_set_output_def v(1) c(1) Let_def)
  with v(2,3) c(2,3) show ?thesis by blast
qed

lemma handle_read_output_setting_ok:
  assumes "set_voltage s = real_of_int v / 1000" "set_current s = real_of_int c / 1000"
    and "0 \<le> v" "v < 2 ^ 32" "0 \<le> c" "c < 2 ^ 32"
  shows "\<exists>bs. handle_read_output_setting s = Inr bs \<and> length bs = 8"
  using pack_II_ok [OF assms(3-6)]
  by (simp add: handle_read_output_setting_def assms(1,2) py_int_milli py_int_of_int Let_def)

lemma set_output_then_read:
  assumes "8 \<le> length dat"
  shows "\<exists>s1 bs. handle_set_output s dat = Inr s1 \<and> module_id s1 = module_id s
            \<and> handle_read_output_setting s1 = Inr bs \<and> length bs = 8"
proof -
  from handle_set_output_ok [OF assms, of s] obtain v c
    where b: "0 \<le> v" "v < 2 ^ 32" "0 \<le> c" "c < 2 ^ 32"
      and h: "handle_set_output s dat =
             Inr (s\<lparr>set_voltage := real_of_int v / 1000, set_current := real_of_int c / 1000,
                    voltage_out := (if is_power_on s then real_of_int v / 1000 else voltage_out s)\<rparr>)"
    by blast
  let ?s1 = "s\<lparr>set_voltage := real_of_int v / 1000, set_current := real_of_int c / 1000,
                    voltage_out := (if is_power_on s then real_of_int v / 1000 else voltage_out s)\<rparr>"
  have "\<exists>bs. handle_read_output_setting ?s1 = Inr bs \<and> length bs = 8"
    by (rule handle_read_output_setting_ok [of _ v c]) (use b in simp_all)
  with h show ?thesis by auto
qed

lemma route_set_output_replies:
  assumes "8 \<le> length dat"
  shows "\<exists>s1 bs. route_command pack_f s 0x1B dat remote_src device_mode dest_addr
            = (s1, Inr (Some (send_response s1 0x1B bs remote_src)))
          \<and> module_id s1 = module_id s \<and> length bs = 8"
proof -
  from set_output_then_read [OF assms, of s] obtain s1 bs
    where h: "handle_set_output s dat = Inr s1" "module_id s1 = module_id s"
      "handle_read_output_setting s1 = Inr bs" "length bs = 8" by blast
  from h(4) have "bs \<noteq> []" by auto
  then have "route_command pack_f s 0x1B dat remote_src device_mode dest_addr
            = (s1, Inr (Some (send_response s1 0x1B bs remote_src)))"
    by (simp add: route_command_def h(1,3))
  with h(2,4) show ?thesis by blast
qed

lemma route_set_output_fixed_replies:
  assumes "8 \<le> length dat"
  shows "\<exists>s1 bs. route_command pack_f s 0x1C dat remote_src device_mode dest_addr
            = (s1, Inr (if dest_addr \<noteq> 0x3F
                        then Some (send_response s1 0x1C bs remote_src) else None))
          \<and> module_id s1 = module_id s \<and> length bs = 8"
proof -
  from set_output_then_read [OF assms, of s] obtain s1 bs
    where h: "handle_set_output s dat = Inr s1" "module_id s1 = module_id s"
      "handle_read_output_setting s1 = Inr bs" "length bs = 8" by blast
  from h(4) have "bs \<noteq> []" by auto
  then have "route_command pack_f s 0x1C dat remote_src device_mode dest_addr
            = (s1, Inr (if dest_addr \<noteq> 0x3F
                        then Some (send_response s1 0x1C bs remote_src) else None))"
    by (simp add: route_command_def handle_set_output_fixed_def h(1,3))
  with h(2,4) show ?thesis by blast
qed

lemma route_power_control_replies:
  "\<exists>s1. route_command pack_f s 0x1A (b # rest) remote_src device_mode dest_addr
          = (s1, Inr (if device_mode = 0x0A \<and> dest_addr \<noteq> 0x3F
                      then Some (send_response s1 0x1A
                                   [if is_power_on s1 then 0x00 else 0x01, 0, 0, 0, 0, 0, 0, 0]
                                   remote_src)
                      else None))
        \<and> module_id s1 = module_id s"
  by (simp add: route_command_def handle_power_control_def handle_read_power_state_def)

lemma route_other_no_reply:
  assumes "cmd \<noteq> 0x01" "cmd \<noteq> 0x03" "cmd \<noteq> 0x04" "cmd \<noteq> 0x08" "cmd \<noteq> 0x09"
      "cmd \<noteq> 0x0A" "cmd \<noteq> 0x0C" "cmd \<noteq> 0x1A" "cmd \<noteq> 0x1B" "cmd \<noteq> 0x1C"
  shows "route_command pack_f s cmd dat remote_src device_mode dest_addr = (s, Inr None)"
  using assms by (simp add: route_command_def)

lemma handle_set_output_module_id:
  "handle_set_output s dat = Inr s1 \<Longrightarrow> module_id s1 = module_id s"
  by (auto simp add: handle_set_output_def Let_def split: sum.splits if_splits)

lemma handle_power_control_module_id:
  "handle_power_control s dat = Inr s1 \<Longrightarrow> module_id s1 = module_id s"
  by (auto simp add: handle_power_control_def split: list.splits if_splits)

lemma route_reply_id:
  assumes "route_command pack_f s cmd dat remote_src device_mode dest_addr = (s', Inr (Some m))"
  shows "arbitration_id m = encodeId 0x00 0x0A cmd remote_src (module_id s)"
proof -
  consider "cmd = 0x01" | "cmd = 0x03" | "cmd = 0x04" | "cmd = 0x08" | "cmd = 0x09"
    | "cmd = 0x0A" | "cmd = 0x0C" | "cmd = 0x1A" | "cmd = 0x1B" | "cmd = 0x1C"
    | "cmd \<noteq> 0x01" "cmd \<noteq> 0x03" "cmd \<noteq> 0x04" "cmd \<noteq> 0x08" "cmd \<noteq> 0x09"
      "cmd \<noteq> 0x0A" "cmd \<noteq> 0x0C" "cmd \<noteq> 0x1A" "cmd \<noteq> 0x1B" "cmd \<noteq> 0x1C"
    by blast
  then show ?thesis
  proof cases
    case 1 with assms show ?thesis
      by (auto simp add: route_command_def send_response_encodeId
            split: sum.splits option.splits if_splits)
  next
    case 2 with assms show ?thesis
      by (auto simp add: route_command_def send_response_encodeId
            split: sum.splits option.splits if_splits)
  next
    case 3 with assms show ?thesis
      by (auto simp add: route_command_def send_response_encodeId
            split: sum.splits option.splits if_splits)
  next
    case 4 with assms show ?thesis
      by (auto simp add: route_command_def send_response_encodeId
            split: sum.splits option.splits if_splits)
  next
    case 5 with assms show ?thesis
      by (auto simp add: route_command_def send_response_encodeId
            split: sum.splits option.splits if_splits)
  next
    case 6 with assms show ?thesis
      by (auto simp add: route_command_def send_response_encodeId
            split: sum.splits option.splits if_splits)
  next
    case 7 with assms show ?thesis
      by (auto simp add: route_command_def send_response_encodeId
            split: sum.splits option.splits if_splits)
  next
    case 8 with assms show ?thesis
      by (auto simp add: route_command_def send_response_encodeId
            split: sum.splits option.splits if_splits dest: handle_power_control_module_id)
  next
    case 9 with assms show ?thesis
      by (auto simp add: route_command_def send_response_encodeId
            split: sum.splits option.splits if_splits dest: handle_set_output_module_id)
  next
    case 10 with assms show ?thesis
      by (auto simp add: route_command_def send_response_encodeId handle_set_output_fixed_def
            split: sum.splits option.splits if_splits dest: handle_set_output_module_id)
  next
    case 11 with assms show ?thesis by (simp add: route_command_def)
  qed
qed

lemma process_message_Routed:
  assumes "process_message pack_f s msg = Routed res"
    and "decodeId (arbitration_id msg) = (err_code, device_no, cmd, dest_addr, src_addr)"
  shows "res = route_command pack_f s cmd (data msg) src_addr device_no dest_addr"
  using assms by (simp add: process_message_def Let_def split: if_splits)

lemma decodeId_ranges:
  assumes "decodeId x = (err_code, device_no, cmd, dest_addr, src_addr)"
  shows "0 \<le> cmd" "cmd \<le> 0x3F" "0 \<le> src_addr" "src_addr \<le> 0xFF"
proof -
  from assms have c: "cmd = x div 2 ^ 16 mod 64" and s: "src_addr = x mod 256"
    by (simp_all add: decodeId_arith)
  have "0 \<le> x div 2 ^ 16 mod 64" "x div 2 ^ 16 mod 64 < 64" by simp_all
  then show "0 \<le> cmd" "cmd \<le> 0x3F" unfolding c by simp_all
  have "0 \<le> x mod 256" "x mod 256 < 256" by simp_all
  then show "0 \<le> src_addr" "src_addr \<le> 0xFF" unfolding s by simp_all
qed

text \<open>
  Claim C4, amended. For every routed frame whose payload has the length its command
  reads (at least one byte for 0x1A, at least eight bytes for 0x1B and 0x1C), on a
  module whose id fits the 8-bit source field: command 0x1A is answered if and only if
  the scope is 0x0A and the destination is not 0x3F, with the state byte (0x00 on,
  0x01 off) followed by seven zero bytes; command 0x1B is always answered; command
  0x1C is answered if and only if the destination is not 0x3F; a command outside the
  dispatch table is never answered; and every reply frame decodes to error code 0,
  scope 0x0A, the command of the request, the source of the request as destination,
  and the module id as source.
\<close>

theorem routed_frame_reply:
  assumes "process_message pack_f s msg = Routed (s', r)"
    and "decodeId (arbitration_id msg) = (err_code, device_no, cmd, dest_addr, src_addr)"
    and "0 \<le> module_id s" and "module_id s \<le> 0xFF"
    and "cmd = 0x1A \<longrightarrow> 1 \<le> length (data msg)"
    and "cmd = 0x1B \<or> cmd = 0x1C \<longrightarrow> 8 \<le> length (data msg)"
  shows "(cmd = 0x1A \<longrightarrow>
            (if device_no = 0x0A \<and> dest_addr \<noteq> 0x3F
             then \<exists>m. r = Inr (Some m)
                    \<and> data m = [if is_power_on s' then 0x00 else 0x01, 0, 0, 0, 0, 0, 0, 0]
             else r = Inr None))
       \<and> (cmd = 0x1B \<longrightarrow> (\<exists>m. r = Inr (Some m)))
       \<and> (cmd = 0x1C \<longrightarrow>
            (if dest_addr \<noteq> 0x3F then \<exists>m. r = Inr (Some m) else r = Inr None))
       \<and> (cmd \<notin> {0x01, 0x03, 0x04, 0x08, 0x09, 0x0A, 0x0C, 0x1A, 0x1B, 0x1C} \<longrightarrow>
            r = Inr None)
       \<and> (\<forall>m. r = Inr (Some m) \<longrightarrow>
            decodeId (arbitration_id m) = (0x00, 0x0A, cmd, src_addr, module_id s))"
proof -
  let ?route = "route_command pack_f s cmd (data msg) src_addr device_no dest_addr"
  have rt: "?route = (s', r)"
    using process_message_Routed [OF assms(1,2)] by simp
  have c1: "cmd = 0x1A \<longrightarrow>
            (if device_no = 0x0A \<and> dest_addr \<noteq> 0x3F
             then \<exists>m. r = Inr (Some m)
                    \<and> data m = [if is_power_on s' then 0x00 else 0x01, 0, 0, 0, 0, 0, 0, 0]
             else r = Inr None)"
  proof
    assume c: "cmd = 0x1A"
    with assms(5) obtain b rest where d: "data msg = b # rest"
      by (cases "data msg") simp_all
    from route_power_control_replies [of pack_f s b rest src_addr device_no dest_addr]
    obtain s1 where "route_command pack_f s 0x1A (b # rest) src_addr device_no dest_addr
          = (s1, Inr (if device_no = 0x0A \<and> dest_addr \<noteq> 0x3F
                      then Some (send_response s1 0x1A
                                   [if is_power_on s1 then 0x00 else 0x01, 0, 0, 0, 0, 0, 0, 0]
                                   src_addr)
                      else None))" by blast
    with rt c d show "if device_no = 0x0A \<and> dest_addr \<noteq> 0x3F
             then \<exists>m. r = Inr (Some m)
                    \<and> data m = [if is_power_on s' then 0x00 else 0x01, 0, 0, 0, 0, 0, 0, 0]
             else r = Inr None"
      by (auto simp add: send_response_def)
  qed
  have c2: "cmd = 0x1B \<longrightarrow> (\<exists>m. r = Inr (Some m))"
  proof
    assume c: "cmd = 0x1B"
    with assms(6) have "8 \<le> length (data msg)" by simp
    from route_set_output_replies [OF this, of pack_f s src_addr device_no dest_addr] rt c
    show "\<exists>m. r = Inr (Some m)" by auto
  qed
  have c3: "cmd = 0x1C \<longrightarrow>
            (if dest_addr \<noteq> 0x3F then \<exists>m. r = Inr (Some m) else r = Inr None)"
  proof
    assume c: "cmd = 0x1C"
    with assms(6) have "8 \<le> length (data msg)" by simp
    from route_set_output_fixed_replies [OF this, of pack_f s src_addr device_no dest_addr] rt c
    show "if dest_addr \<noteq> 0x3F then \<exists>m. r = Inr (Some m) else r = Inr None" by auto
  qed
  have c4: "cmd \<notin> {0x01, 0x03, 0x04, 0x08, 0x09, 0x0A, 0x0C, 0x1A, 0x1B, 0x1C} \<longrightarrow>
            r = Inr None"
  proof
    assume "cmd \<notin> {0x01, 0x03, 0x04, 0x08, 0x09, 0x0A, 0x0C, 0x1A, 0x1B, 0x1C}"
    then have "?route = (s, Inr None)"
      by (intro route_other_no_reply) simp_all
    with rt show "r = Inr None" by simp
  qed
  have c5: "\<forall>m. r = Inr (Some m) \<longrightarrow>
            decodeId (arbitration_id m) = (0x00, 0x0A, cmd, src_addr, module_id s)"
  proof (intro allI impI)
    fix m assume "r = Inr (Some m)"
    with rt have "?route = (s', Inr (Some m))" by simp
    then have "arbitration_id m = encodeId 0x00 0x0A cmd src_addr (module_id s)"
      by (rule route_reply_id)
    moreover have "decodeId (encodeId 0x00 0x0A cmd src_addr (module_id s))
        = (0x00, 0x0A, cmd, src_addr, module_id s)"
      using decodeId_ranges [OF assms(2)] assms(3,4)
      by (intro decode_encode) simp_all
    ultimately show "decodeId (arbitration_id m) = (0x00, 0x0A, cmd, src_addr, module_id s)"
      by simp
  qed
  from c1 c2 c3 c4 c5 show ?thesis by blast
qed

theorem routed_frame_reply_witness:
  "process_message pack_f_raises ((init 0 0)\<lparr>running := True\<rparr>)
     \<lparr>arbitration_id = 0x029B00F0, data = [0x00, 0x07, 0xA1, 0x20, 0x00, 0x00, 0x27, 0x10],
      is_extended_id = True, is_error_frame = False\<rparr>
   = Routed ((init 0 0)\<lparr>running := True\<rparr>,
             Inr (Some \<lparr>arbitration_id = 0x029BF000,
                         data = [0x00, 0x07, 0xA1, 0x20, 0x00, 0x00, 0x27, 0x10],
                         is_extended_id = True, is_error_frame = False\<rparr>))
   \<and> decodeId 0x029B00F0 = (0, 0x0A, 0x1B, 0x00, 0xF0)
   \<and> (8::nat) \<le> length [0x00, 0x07, 0xA1, 0x20, 0x00, 0x00, 0x27, (0x10::byte)]
   \<and> decodeId 0x029BF000 = (0, 0x0A, 0x1B, 0xF0, 0x00)"
proof -
  let ?s = "(init 0 0)\<lparr>running := True\<rparr>"
  let ?msg = "\<lparr>arbitration_id = 0x029B00F0,
      data = [0x00, 0x07, 0xA1, 0x20, 0x00, 0x00, 0x27, 0x10],
      is_extended_id = True, is_error_frame = False\<rparr>"
  let ?reply = "\<lparr>arbitration_id = 0x029BF000,
      data = [0x00, 0x07, 0xA1, 0x20, 0x00, 0x00, 0x27, 0x10],
      is_extended_id = True, is_error_frame = False\<rparr>"
  have d: "decodeId (arbitration_id ?msg) = (0, 0x0A, 0x1B, 0x00, 0xF0)"
    by (simp add: decodeId_arith)
  have s: "?s\<lparr>set_voltage := 500, set_current := 10,
        voltage_out := (if is_power_on ?s then 500 else voltage_out ?s)\<rparr> = ?s"
    by (simp add: init_def)
  have "handle_read_output_setting ?s = Inr [0x00, 0x07, 0xA1, 0x20, 0x00, 0x00, 0x27, 0x10]"
    by (rule handle_read_output_setting_500V_10A) (simp_all add: init_def)
  then have "route_command pack_f_raises ?s 0x1B
        [0x00, 0x07, 0xA1, 0x20, 0x00, 0x00, 0x27, 0x10] 0xF0 0x0A 0x00
      = (?s, Inr (Some ?reply))"
    unfolding route_command_def
    by (simp add: handle_set_output_500V_10A s send_response_def init_def push_bit_eq_mult)
  then have p: "process_message pack_f_raises ?s ?msg = Routed (?s, Inr (Some ?reply))"
    using d by (simp add: process_message_def init_def)
  have m: "0 \<le> module_id ?s" "module_id ?s \<le> 0xFF" by (simp_all add: init_def)
  have l1: "(0x1B::int) = 0x1A \<longrightarrow> 1 \<le> length (data ?msg)" by simp
  have l2: "(0x1B::int) = 0x1B \<or> (0x1B::int) = 0x1C \<longrightarrow> 8 \<le> length (data ?msg)" by simp
  from routed_frame_reply [OF p d m l1 l2] p d show ?thesis
    by (simp add: init_def)
qed

text \<open>
  Claim C4 as stated fails: a routed command-0x1B frame with a four-byte payload
  raises \<open>struct.error\<close> in the handler, so no reply is sent.
\<close>

theorem set_output_short_payload_no_reply:
  "process_message pack_f_raises ((init 0 0)\<lparr>running := True\<rparr>)
     \<lparr>arbitration_id = 0x029B00F0, data = [0x00, 0x07, 0xA1, 0x20],
      is_extended_id = True, is_error_frame = False\<rparr>
   = Routed ((init 0 0)\<lparr>running := True\<rparr>, Inl StructError)"
proof -
  have d: "decodeId 0x029B00F0 = (0, 0x0A, 0x1B, 0x00, 0xF0)"
    by (simp add: decodeId_arith)
  have "route_command pack_f_raises ((init 0 0)\<lparr>running := True\<rparr>) 0x1B
          [0x00, 0x07, 0xA1, 0x20] 0xF0 0x0A 0x00
        = ((init 0 0)\<lparr>running := True\<rparr>, Inl StructError)"
    by (simp add: route_command_def handle_set_output_def unpack_I_def)
  then show ?thesis
    by (simp add: process_message_def d init_def)
qed

subsection \<open>Heartbeat\<close>

lemma heartbeat_id:
  assumes "0 \<le> m" "m \<le> 0xFF"
  shows "(0x0757F800::int) OR m = 0x0757F800 + m"
proof -
  have m: "take_bit 8 m = m" using assms by (simp add: take_bit_int_eq_self)
  have c: "(0x0757F800::int) = push_bit 8 0x0757F8" by (simp add: push_bit_eq_mult)
  have "push_bit 8 a AND take_bit 8 m = 0" for a :: int
    by (auto simp add: bit_eq_iff bit_simps)
  then have "push_bit 8 (0x0757F8::int) + take_bit 8 m = push_bit 8 0x0757F8 OR take_bit 8 m"
    by (rule disjunctive_add_eq_or)
  then show ?thesis by (simp only: m c)
qed

lemma low_byte:
  assumes "0 \<le> m" "m < 256"
  shows "(256 * k + m) mod 256 = m" "(256 * k + m) div 256 = (k::int)"
  using assms by simp_all

lemma hb_arith:
  assumes "0 \<le> m" "m \<le> 0xFF"
  shows "(0x0757F800 + m) mod 256 = m" "(0x0757F800 + m) div 256 = (0x0757F8::int)"
    "0x0757F800 + m < (2::int) ^ 29"
proof -
  have c: "(0x0757F800::int) = 256 * 0x0757F8" by simp
  from assms have m: "m < 256" by simp
  show "(0x0757F800 + m) mod 256 = m" unfolding c using assms(1) m by (rule low_byte(1))
  show "(0x0757F800 + m) div 256 = (0x0757F8::int)" unfolding c using assms(1) m by (rule low_byte(2))
  show "0x0757F800 + m < (2::int) ^ 29" using assms by simp
qed

lemma heartbeat_loop_map:
  "running s \<Longrightarrow> broadcast_heartbeat_loop s rs = map (heartbeat_cycle s) rs"
  by (induction rs) simp_all

text \<open>
  Claim C9. While the module runs, with a module id that fits one byte, every cycle of
  the heartbeat loop sends a frame whose identifier is 0x0757F800 plus the module id
  (a 29-bit value with the module id in the low byte and 0x0757F8 above it) and whose
  payload is eight zero bytes, and then sleeps for 0.390 + 0.020 * r seconds, where r
  is the draw of the random source in [0, 1) for that cycle: every sleep duration, for
  any number of cycles, lies in [0.390, 0.410].
\<close>

theorem heartbeat_cycles:
  assumes "0 \<le> module_id s" "module_id s \<le> 0xFF" "running s"
    and "\<forall>r \<in> set rs. 0 \<le> r \<and> r < 1"
  shows "length (broadcast_heartbeat_loop s rs) = length rs
     \<and> (\<forall>i < length rs.
          fst (broadcast_heartbeat_loop s rs ! i) =
            \<lparr>arbitration_id = 0x0757F800 + module_id s, data = [0, 0, 0, 0, 0, 0, 0, 0],
             is_extended_id = True, is_error_frame = False\<rparr>
          \<and> snd (broadcast_heartbeat_loop s rs ! i) = 0.390 + 0.020 * (rs ! i)
          \<and> 0.390 \<le> snd (broadcast_heartbeat_loop s rs ! i)
          \<and> snd (broadcast_heartbeat_loop s rs ! i) \<le> 0.410)
     \<and> (0x0757F800 + module_id s) mod 256 = module_id s
     \<and> (0x0757F800 + module_id s) div 256 = 0x0757F8
     \<and> 0x0757F800 + module_id s < 2 ^ 29"
proof -
  have l: "broadcast_heartbeat_loop s rs = map (heartbeat_cycle s) rs"
    using assms(3) by (rule heartbeat_loop_map)
  have z: "replicate 8 (0::byte) = [0, 0, 0, 0, 0, 0, 0, 0]"
    by (simp add: numeral_eq_Suc)
  have c: "heartbeat_cycle s r =
      (\<lparr>arbitration_id = 0x0757F800 + module_id s, data = [0, 0, 0, 0, 0, 0, 0, 0],
             is_extended_id = True, is_error_frame = False\<rparr>, 0.390 + 0.020 * r)" for r
    using heartbeat_id [OF assms(1) assms(2)]
    by (simp add: heartbeat_cycle_def uniform_def z Let_def)
  have b: "0.390 \<le> 0.390 + 0.020 * (rs ! i) \<and> 0.390 + 0.020 * (rs ! i) \<le> (0.410::real)"
    if "i < length rs" for i
  proof -
    from that assms(4) have "0 \<le> rs ! i \<and> rs ! i < 1" by simp
    then show ?thesis by simp
  qed
  have a: "(0x0757F800 + module_id s) mod 256 = module_id s"
      "(0x0757F800 + module_id s) div 256 = 0x0757F8"
      "0x0757F800 + module_id s < 2 ^ 29"
    using assms(1,2) by (rule hb_arith)+
  show ?thesis
    using b a by (simp add: l c)
qed

theorem heartbeat_cycles_witness:
  "broadcast_heartbeat_loop ((init 5 0)\<lparr>running := True\<rparr>) [0, 1 / 2]
     = [(\<lparr>arbitration_id = 0x0757F805, data = [0, 0, 0, 0, 0, 0, 0, 0],
          is_extended_id = True, is_error_frame = False\<rparr>, 0.390),
        (\<lparr>arbitration_id = 0x0757F805, data = [0, 0, 0, 0, 0, 0, 0, 0],
          is_extended_id = True, is_error_frame = False\<rparr>, 0.400)]"
proof -
  let ?s = "(init 5 0)\<lparr>running := True\<rparr>"
  have m: "0 \<le> module_id ?s" "module_id ?s \<le> 0xFF" by (simp_all add: init_def)
  have r: "running ?s" by simp
  have b: "\<forall>r \<in> set [0, 1 / 2 :: real]. 0 \<le> r \<and> r < 1" by simp
  from heartbeat_cycles [OF m r b] show ?thesis
    by (simp add: list_eq_iff_nth_eq nth_Cons' less_Suc_eq init_def prod_eq_iff)
qed

end
